theory Spec2Isabelle
  imports Main "HOL-Library.Word"
begin

unbundle bit_operations_syntax

section \<open>The hcapi client of hl7push\<close>

text \<open>
  The client of the healthcare message store (package main, the file that declares
  \<^verbatim>\<open>Config\<close>, \<^verbatim>\<open>NewClient\<close> and the \<^verbatim>\<open>client\<close> methods) and the
  acknowledgement check \<^verbatim>\<open>checkAck\<close> of main.go.

  Go strings are byte sequences and are modelled as \<^typ>\<open>string\<close>; a \<^verbatim>\<open>[]byte\<close> is a
  list of 8-bit words, the nil slice being the empty list. What is printed with
  \<^verbatim>\<open>fmt.Println\<close> is not part of the model.
\<close>

type_synonym byte = "8 word"

subsection \<open>Constants\<close>

definition scope :: string where
  "scope = ''https://www.googleapis.com/auth/cloud-healthcare''"

definition projectsPath :: string where
  "projectsPath = ''projects''"

definition locationsPath :: string where
  "locationsPath = ''locations''"

definition datasetsPath :: string where
  "datasetsPath = ''datasets''"

definition hl7storePath :: string where
  "hl7storePath = ''hl7V2Stores''"

definition apiFormatHeader :: string where
  "apiFormatHeader = ''X-GOOG-API-FORMAT-VERSION''"

subsection \<open>Errors\<close>

text \<open>
  \<^verbatim>\<open>errors.New(s)\<close> is \<open>ErrorString s\<close>. \<open>CorruptInputError\<close> is the error of
  \<^verbatim>\<open>encoding/base64\<close> (the byte offset it carries is left out). \<open>ExternalError\<close> stands for
  the errors of the collaborators that are only called by this code: the file system,
  the oauth2 library, the healthcare API client and the HL7 parser.
\<close>

datatype error =
    ErrorString string
  | CorruptInputError
  | ExternalError string

subsection \<open>Config\<close>

record Config =
  Credential :: string
  ProjectID :: string
  LocationID :: string
  DatasetID :: string
  HL7StoreID :: string
  RateLimit :: int

text \<open>\<^verbatim>\<open>Config.Validate\<close>: \<open>None\<close> is the nil error.\<close>

definition Validate :: "Config \<Rightarrow> error option" where
  "Validate c =
     (if ProjectID c = '''' then Some (ErrorString ''missing project id'')
      else if LocationID c = '''' then Some (ErrorString ''missing location id'')
      else if DatasetID c = '''' then Some (ErrorString ''missing dataset id'')
      else if HL7StoreID c = '''' then Some (ErrorString ''missing hl7 store id'')
      else None)"

subsection \<open>The store name\<close>

text \<open>\<^verbatim>\<open>strings.Join(elems, sep)\<close>: the elements, with the separator between them.\<close>

fun Join :: "string list \<Rightarrow> string \<Rightarrow> string" where
  "Join [] sep = ''''"
| "Join [x] sep = x"
| "Join (x # y # ys) sep = x @ sep @ Join (y # ys) sep"

definition genStoreName :: "Config \<Rightarrow> string" where
  "genStoreName config =
     Join [projectsPath, ProjectID config,
           locationsPath, LocationID config,
           datasetsPath, DatasetID config,
           hl7storePath, HL7StoreID config] ''/''"

subsection \<open>encoding/base64\<close>

text \<open>
  \<^verbatim>\<open>base64.StdEncoding\<close> belongs to the Go standard library, not to this repository. It
  is modelled here as the library computes it: the alphabet of RFC 4648 with \<^verbatim>\<open>=\<close>
  padding. \<^verbatim>\<open>uint\<close> is taken at 64 bits; the values stay below \<open>2 ^ 24\<close>.
\<close>

type_synonym uint = "64 word"

definition encodeStd :: string where
  "encodeStd = ''ABCDEFGHIJKLMNOPQRSTUVWXYZabcdefghijklmnopqrstuvwxyz0123456789+/''"

definition StdPadding :: char where
  "StdPadding = CHR ''=''"

text \<open>\<^verbatim>\<open>enc.encode[val>>n&0x3F]\<close>\<close>

definition sextet :: "uint \<Rightarrow> nat \<Rightarrow> char" where
  "sextet val n = encodeStd ! unat (drop_bit n val AND 0x3F)"

text \<open>
  \<^verbatim>\<open>EncodeToString\<close>: three source bytes give four characters; a last block of one
  or two bytes is padded to four characters.
\<close>

fun EncodeToString :: "byte list \<Rightarrow> string" where
  "EncodeToString (b0 # b1 # b2 # src) =
     (let val = push_bit 16 (ucast b0) OR push_bit 8 (ucast b1) OR ucast b2
      in sextet val 18 # sextet val 12 # sextet val 6 # sextet val 0 # EncodeToString src)"
| "EncodeToString [b0, b1] =
     (let val = push_bit 16 (ucast b0) OR push_bit 8 (ucast b1)
      in [sextet val 18, sextet val 12, sextet val 6, StdPadding])"
| "EncodeToString [b0] =
     (let val = push_bit 16 (ucast b0)
      in [sextet val 18, sextet val 12, StdPadding, StdPadding])"
| "EncodeToString [] = []"

fun index_of :: "'a list \<Rightarrow> 'a \<Rightarrow> nat option" where
  "index_of [] c = None"
| "index_of (x # xs) c = (if x = c then Some 0 else map_option Suc (index_of xs c))"

text \<open>\<^verbatim>\<open>enc.decodeMap\<close>: the position in the alphabet, \<open>0xFF\<close> for any other byte.\<close>

definition decodeMap :: "char \<Rightarrow> byte" where
  "decodeMap c = (case index_of encodeStd c of Some i \<Rightarrow> of_nat i | None \<Rightarrow> 0xFF)"

text \<open>\<^verbatim>\<open>uint(dbuf[0])<<18 | uint(dbuf[1])<<12 | uint(dbuf[2])<<6 | uint(dbuf[3])\<close>\<close>

definition assemble :: "byte \<Rightarrow> byte \<Rightarrow> byte \<Rightarrow> byte \<Rightarrow> uint" where
  "assemble d0 d1 d2 d3 =
     push_bit 18 (ucast d0) OR push_bit 12 (ucast d1) OR push_bit 6 (ucast d2) OR ucast d3"

text \<open>
  The quanta of four characters, on an input without line breaks. A quantum of four
  alphabet characters gives three bytes; the last quantum may end in one or two padding
  characters and then gives two bytes or one (the encoding is not strict: the unused low
  bits are not checked). Anything else is corrupt input: a character outside the alphabet,
  padding in the first two places, a single \<^verbatim>\<open>=\<close> where two are due, characters after the
  padding, or an input that stops inside a quantum.
\<close>

fun decodeQuanta :: "string \<Rightarrow> error + byte list" where
  "decodeQuanta [] = Inr []"
| "decodeQuanta (a # b # c # d # src) =
     (if decodeMap a = 0xFF \<or> decodeMap b = 0xFF then Inl CorruptInputError
      else if decodeMap c = 0xFF then
        (if c = StdPadding \<and> d = StdPadding \<and> src = [] then
           (let val = assemble (decodeMap a) (decodeMap b) 0 0
            in Inr [ucast (drop_bit 16 val)])
         else Inl CorruptInputError)
      else if decodeMap d = 0xFF then
        (if d = StdPadding \<and> src = [] then
           (let val = assemble (decodeMap a) (decodeMap b) (decodeMap c) 0
            in Inr [ucast (drop_bit 16 val), ucast (drop_bit 8 val)])
         else Inl CorruptInputError)
      else
        (let val = assemble (decodeMap a) (decodeMap b) (decodeMap c) (decodeMap d) in
         case decodeQuanta src of
           Inl err \<Rightarrow> Inl err
         | Inr dst \<Rightarrow>
             Inr (ucast (drop_bit 16 val) # ucast (drop_bit 8 val) # ucast val # dst)))"
| "decodeQuanta _ = Inl CorruptInputError"

text \<open>
  \<^verbatim>\<open>DecodeString\<close>: carriage returns and line feeds are skipped wherever they stand.
  On an error the library also hands back the bytes decoded so far; \<^verbatim>\<open>Send\<close> drops
  them, and so does the model.
\<close>

definition DecodeString :: "string \<Rightarrow> error + byte list" where
  "DecodeString s = decodeQuanta (filter (\<lambda>c. c \<noteq> CHR 0x0A \<and> c \<noteq> CHR 0x0D) s)"

subsection \<open>fmt.Sprintf\<close>

text \<open>
  \<^verbatim>\<open>fmt.Sprintf\<close> with string operands. The verb \<^verbatim>\<open>%s\<close> and the escape \<^verbatim>\<open>%%\<close> are
  rendered as the library renders them, and so are a missing operand, a missing verb and
  operands left over. Every other verb is rendered in the library's bad-verb notation;
  that is not what the library does for \<^verbatim>\<open>%v\<close>, \<^verbatim>\<open>%q\<close>, \<^verbatim>\<open>%x\<close>, \<^verbatim>\<open>%X\<close>, flags
  and widths, none of which the source uses.
\<close>

fun Sprintf :: "string \<Rightarrow> string list \<Rightarrow> string" where
  "Sprintf [] a =
     (if a = [] then ''''
      else ''%!(EXTRA '' @ Join (map (\<lambda>x. ''string='' @ x) a) '', '' @ '')'')"
| "Sprintf [c] a =
     (if c = CHR ''%'' then ''%!(NOVERB)'' @ Sprintf [] a else c # Sprintf [] a)"
| "Sprintf (c # verb # format) a =
     (if c \<noteq> CHR ''%'' then c # Sprintf (verb # format) a
      else if verb = CHR ''%'' then CHR ''%'' # Sprintf format a
      else (case a of
              [] \<Rightarrow> ''%!'' @ [verb] @ ''(MISSING)'' @ Sprintf format []
            | x # xs \<Rightarrow>
                (if verb = CHR ''s'' then x @ Sprintf format xs
                 else ''%!'' @ [verb] @ ''(string='' @ x @ '')'' @ Sprintf format xs)))"

subsection \<open>The healthcare API client library\<close>

text \<open>
  \<^verbatim>\<open>healthcare.Message\<close>, with the fields this code reads or writes; the others keep
  their zero values.
\<close>

record Message =
  Name :: string
  Data :: string
  Labels :: "string \<rightharpoonup> string"

text \<open>
  In \<^verbatim>\<open>IngestMessageRequest\<close> and \<^verbatim>\<open>IngestMessageResponse\<close> the Go field
  \<^verbatim>\<open>Message\<close> is a pointer: \<open>None\<close> is nil.
\<close>

record IngestMessageRequest =
  reqMessage :: "Message option"

record IngestMessageResponse =
  Hl7Ack :: string
  respMessage :: "Message option"

record ListMessagesResponse =
  Hl7V2Messages :: "Message list"
  NextPageToken :: string

text \<open>
  \<^verbatim>\<open>http.Header\<close> is a map from a header name to its values. It belongs to the Go
  standard library (\<^verbatim>\<open>net/http\<close>, \<^verbatim>\<open>net/textproto\<close>), not to this repository, and is
  modelled as the library computes it: \<^verbatim>\<open>Add\<close> and \<^verbatim>\<open>Get\<close> both bring the name to
  its canonical capitalisation first (\<^verbatim>\<open>CanonicalMIMEHeaderKey\<close>: the first letter and
  every letter after a hyphen in upper case, the other letters in lower case; a name with
  a byte that is no token character is left as it is), \<^verbatim>\<open>Add\<close> appends a value to those
  of the name, and \<^verbatim>\<open>Get\<close> returns the first value of the name, or the empty string.
\<close>

type_synonym Header = "string \<rightharpoonup> string list"

definition validHeaderFieldByte :: "char \<Rightarrow> bool" where
  "validHeaderFieldByte c =
     (let n = (of_char c :: nat)
      in (48 \<le> n \<and> n \<le> 57) \<or> (65 \<le> n \<and> n \<le> 90) \<or> (97 \<le> n \<and> n \<le> 122)
         \<or> n \<in> set [33, 35, 36, 37, 38, 39, 42, 43, 45, 46, 94, 95, 96, 124, 126])"

definition toLower :: nat where
  "toLower = 32"

fun canonicalMIMEHeaderKey :: "bool \<Rightarrow> string \<Rightarrow> string" where
  "canonicalMIMEHeaderKey upper [] = []"
| "canonicalMIMEHeaderKey upper (c # a) =
     (let n = (of_char c :: nat);
          c' = (if upper \<and> 97 \<le> n \<and> n \<le> 122 then char_of (n - toLower)
                else if \<not> upper \<and> 65 \<le> n \<and> n \<le> 90 then char_of (n + toLower)
                else c)
      in c' # canonicalMIMEHeaderKey (c' = CHR ''-'') a)"

definition CanonicalMIMEHeaderKey :: "string \<Rightarrow> string" where
  "CanonicalMIMEHeaderKey s =
     (if list_all validHeaderFieldByte s then canonicalMIMEHeaderKey True s else s)"

definition Add :: "Header \<Rightarrow> string \<Rightarrow> string \<Rightarrow> Header" where
  "Add h key val =
     (let key = CanonicalMIMEHeaderKey key
      in h(key \<mapsto> (case h key of None \<Rightarrow> [val] | Some vs \<Rightarrow> vs @ [val])))"

definition HeaderGet :: "Header \<Rightarrow> string \<Rightarrow> string" where
  "HeaderGet h key =
     (case h (CanonicalMIMEHeaderKey key) of
        None \<Rightarrow> ''''
      | Some [] \<Rightarrow> ''''
      | Some (v # vs) \<Rightarrow> v)"

text \<open>
  A call of the messages service, as \<^verbatim>\<open>c.store.Messages.Ingest(parent, req)\<close>,
  \<^verbatim>\<open>c.store.Messages.List(parent)\<close> and \<^verbatim>\<open>c.store.Messages.Get(name)\<close> build it, with
  the header the caller has set on it.
\<close>

datatype call_kind =
    MessagesIngest string IngestMessageRequest
  | MessagesList string
  | MessagesGet string

record Call =
  kind :: call_kind
  callHeader :: Header

text \<open>
  The store service handle. What the remote service answers is not in the repository:
  the three functions say what \<^verbatim>\<open>Do()\<close> returns for an ingest, a list and a get call.
\<close>

record Hl7V2StoresService =
  IngestDo :: "string \<Rightarrow> IngestMessageRequest \<Rightarrow> Header \<Rightarrow> error + IngestMessageResponse"
  ListDo :: "string \<Rightarrow> Header \<Rightarrow> error + ListMessagesResponse"
  GetDo :: "string \<Rightarrow> Header \<Rightarrow> error + Message"

text \<open>\<^verbatim>\<open>healthcare.Service\<close>, reduced to \<^verbatim>\<open>Projects.Locations.Datasets.Hl7V2Stores\<close>.\<close>

record Service =
  Hl7V2Stores :: Hl7V2StoresService

subsection \<open>Rate limiter and credentials\<close>

text \<open>
  \<^verbatim>\<open>ratelimit.New(rate)\<close> and \<^verbatim>\<open>ratelimit.NewUnlimited()\<close>. How long \<^verbatim>\<open>Take\<close> blocks
  is a matter of real time and is not modelled; that it is called is an event.
\<close>

datatype Limiter = New int | NewUnlimited

text \<open>An \<^verbatim>\<open>oauth2.TokenSource\<close> is opaque to this code: a handle.\<close>

datatype TokenSource = TokenSourceHandle nat

record Credentials =
  TokenSource :: TokenSource

text \<open>
  The collaborators of the construction: the default credential chain
  (\<^verbatim>\<open>goauth2.DefaultTokenSource\<close>), the file system (\<^verbatim>\<open>ioutil.ReadFile\<close>), the
  credential parser (\<^verbatim>\<open>goauth2.CredentialsFromJSON\<close>) and \<^verbatim>\<open>healthcare.NewService\<close>
  with the token source as its option.
\<close>

record Env =
  DefaultTokenSource :: "string list \<Rightarrow> error + TokenSource"
  ReadFile :: "string \<Rightarrow> error + byte list"
  CredentialsFromJSON :: "byte list \<Rightarrow> string list \<Rightarrow> error + Credentials"
  NewService :: "TokenSource \<Rightarrow> error + Service"

subsection \<open>Effects\<close>

text \<open>
  Every function that acts on the outside returns, before its result, the events it has
  caused, in order.
\<close>

datatype event =
    E_DefaultTokenSource "string list"
  | E_ReadFile string
  | E_CredentialsFromJSON "byte list" "string list"
  | E_NewService TokenSource
  | E_Take Limiter
  | E_Do Call

fun requests :: "event list \<Rightarrow> Call list" where
  "requests [] = []"
| "requests (E_Do q # es) = q # requests es"
| "requests (e # es) = requests es"

fun permits :: "event list \<Rightarrow> nat" where
  "permits [] = 0"
| "permits (E_Take l # es) = Suc (permits es)"
| "permits (e # es) = permits es"

text \<open>A nil pointer dereference stops the program.\<close>

datatype panic = NilPointerDereference

subsection \<open>The client\<close>

record client =
  config :: Config
  store :: Hl7V2StoresService
  limiter :: Limiter

text \<open>\<^verbatim>\<open>tokenSource(ctx, cred, scopes...)\<close>\<close>

definition tokenSource :: "Env \<Rightarrow> string \<Rightarrow> string list \<Rightarrow> event list \<times> (error + TokenSource)" where
  "tokenSource env cred scopes =
     (if cred = '''' then ([E_DefaultTokenSource scopes], DefaultTokenSource env scopes)
      else
        (case ReadFile env cred of
           Inl err \<Rightarrow> ([E_ReadFile cred], Inl err)
         | Inr j \<Rightarrow>
             (case CredentialsFromJSON env j scopes of
                Inl err \<Rightarrow> ([E_ReadFile cred, E_CredentialsFromJSON j scopes], Inl err)
              | Inr c \<Rightarrow>
                  ([E_ReadFile cred, E_CredentialsFromJSON j scopes], Inr (TokenSource c)))))"

text \<open>\<^verbatim>\<open>initHL7Store(ctx, cred)\<close>\<close>

definition initHL7Store :: "Env \<Rightarrow> string \<Rightarrow> event list \<times> (error + Hl7V2StoresService)" where
  "initHL7Store env cred =
     (case tokenSource env cred [scope] of
        (tr, Inl err) \<Rightarrow> (tr, Inl err)
      | (tr, Inr ts) \<Rightarrow>
          (case NewService env ts of
             Inl err \<Rightarrow> (tr @ [E_NewService ts], Inl err)
           | Inr hcs \<Rightarrow> (tr @ [E_NewService ts], Inr (Hl7V2Stores hcs))))"

text \<open>\<^verbatim>\<open>NewClient(ctx, config)\<close>\<close>

definition NewClient :: "Env \<Rightarrow> Config \<Rightarrow> event list \<times> (error + client)" where
  "NewClient env cfg =
     (case Validate cfg of
        Some err \<Rightarrow> ([], Inl err)
      | None \<Rightarrow>
          (case initHL7Store env (Credential cfg) of
             (tr, Inl err) \<Rightarrow> (tr, Inl err)
           | (tr, Inr st) \<Rightarrow>
               (let rl = (if RateLimit cfg > 0 then New (RateLimit cfg) else NewUnlimited)
                in (tr, Inr \<lparr>config = cfg, store = st, limiter = rl\<rparr>))))"

text \<open>
  \<^verbatim>\<open>Send(data)\<close>. The result is the triple the Go function returns (the bytes, the
  resource name, the error, \<open>None\<close> being nil), or the panic of \<^verbatim>\<open>resp.Message.Name\<close> on a
  response without a message.
\<close>

definition Send :: "client \<Rightarrow> byte list \<Rightarrow> event list \<times> (panic + byte list \<times> string \<times> error option)" where
  "Send c data =
     (let resultpath = '''';
          req = \<lparr>reqMessage = Some \<lparr>Name = '''', Data = EncodeToString data, Labels = Map.empty\<rparr>\<rparr>;
          storeName = genStoreName (config c);
          hdr = Add Map.empty apiFormatHeader ''2'';
          tr = [E_Take (limiter c), E_Do \<lparr>kind = MessagesIngest storeName req, callHeader = hdr\<rparr>]
      in case IngestDo (store c) storeName req hdr of
           Inl err \<Rightarrow> (tr, Inr ([], resultpath, Some err))
         | Inr resp \<Rightarrow>
             (case respMessage resp of
                None \<Rightarrow> (tr, Inl NilPointerDereference)
              | Some m \<Rightarrow>
                  (let resultpath = Name m in
                   case DecodeString (Hl7Ack resp) of
                     Inl err \<Rightarrow> (tr, Inr ([], '''', Some err))
                   | Inr res \<Rightarrow> (tr, Inr (res, resultpath, None)))))"

text \<open>\<^verbatim>\<open>List()\<close>\<close>

definition List :: "client \<Rightarrow> event list \<times> (error + ListMessagesResponse)" where
  "List c =
     (let storeName = genStoreName (config c);
          hdr = Add Map.empty apiFormatHeader ''2''
      in ([E_Take (limiter c), E_Do \<lparr>kind = MessagesList storeName, callHeader = hdr\<rparr>],
          ListDo (store c) storeName hdr))"

text \<open>\<^verbatim>\<open>Get(path)\<close>\<close>

definition Get :: "client \<Rightarrow> string \<Rightarrow> event list \<times> (error + Message)" where
  "Get c path =
     (let hdr = Add Map.empty apiFormatHeader ''2''
      in ([E_Take (limiter c), E_Do \<lparr>kind = MessagesGet path, callHeader = hdr\<rparr>],
          GetDo (store c) path hdr))"

text \<open>\<^verbatim>\<open>GetByID(id)\<close>\<close>

definition GetByID :: "client \<Rightarrow> string \<Rightarrow> event list \<times> (error + Message)" where
  "GetByID c ident =
     (let path = Sprintf ''%s/messages/%s'' [genStoreName (config c), ident]
      in Get c path)"

subsection \<open>The acknowledgement check\<close>

text \<open>
  \<^verbatim>\<open>checkAck(b)\<close>, the same function in both main programs. The HL7 parser
  (\<^verbatim>\<open>hl7.ParseMessage\<close>, \<^verbatim>\<open>hl7.MessageType\<close>) is a library outside the repository and
  is a parameter; \<open>'m\<close> is its message type.
\<close>

record 'm HL7 =
  ParseMessage :: "byte list \<Rightarrow> bool \<Rightarrow> error + 'm"
  MessageType :: "'m \<Rightarrow> string"

definition checkAck :: "'m HL7 \<Rightarrow> byte list \<Rightarrow> error option" where
  "checkAck hl7 b =
     (case ParseMessage hl7 b True of
        Inl err \<Rightarrow> Some err
      | Inr ack \<Rightarrow>
          (if MessageType hl7 ack = ''ACK'' then None
           else if MessageType hl7 ack = ''NACK'' then
             Some (ErrorString ''receiving system returned nack'')
           else Some (ErrorString ''invalid ack response'')))"

subsection \<open>Test doubles\<close>

text \<open>
  Stand-ins for the collaborators, for the concrete instances of the properties below: a
  store that answers every ingest call with a given response, a client on it with the
  identifiers of main.go, a construction environment with one well-formed credential file,
  one empty file and no other file, and an HL7 parser that tells the message type from the
  length of the message.
\<close>

definition mockStore :: "IngestMessageResponse \<Rightarrow> Hl7V2StoresService" where
  "mockStore resp =
     \<lparr>IngestDo = (\<lambda>parent req hdr. Inr resp),
      ListDo = (\<lambda>parent hdr. Inl (ExternalError ''not found'')),
      GetDo = (\<lambda>name hdr. Inl (ExternalError ''not found''))\<rparr>"

definition mockConfig :: "string \<Rightarrow> int \<Rightarrow> Config" where
  "mockConfig cred rate =
     \<lparr>Credential = cred, ProjectID = ''devx-rpml'', LocationID = ''us-central1'',
      DatasetID = ''inap-dev'', HL7StoreID = ''somehl7'', RateLimit = rate\<rparr>"

definition mockClient :: "IngestMessageResponse \<Rightarrow> client" where
  "mockClient resp =
     \<lparr>config = mockConfig ''./.secrets/creds.json'' 0, store = mockStore resp,
      limiter = NewUnlimited\<rparr>"

definition mockResponse :: "string \<Rightarrow> IngestMessageResponse" where
  "mockResponse ack =
     \<lparr>Hl7Ack = ack,
      respMessage = Some \<lparr>Name = ''projects/devx-rpml/locations/us-central1/datasets/inap-dev/hl7V2Stores/somehl7/messages/1'',
                          Data = '''', Labels = Map.empty\<rparr>\<rparr>"

definition mockEnv :: Env where
  "mockEnv =
     \<lparr>DefaultTokenSource = (\<lambda>scopes. Inr (TokenSourceHandle 0)),
      ReadFile = (\<lambda>path. if path = ''./.secrets/creds.json'' then Inr [0x7B, 0x7D]
                          else if path = ''./.secrets/empty.json'' then Inr []
                          else Inl (ExternalError ''no such file or directory'')),
      CredentialsFromJSON =
        (\<lambda>j scopes. if j = [] then Inl (ExternalError ''unexpected end of JSON input'')
                      else Inr \<lparr>TokenSource = TokenSourceHandle 1\<rparr>),
      NewService = (\<lambda>ts. Inr \<lparr>Hl7V2Stores = mockStore (mockResponse '''')\<rparr>)\<rparr>"

definition mockHL7 :: "nat HL7" where
  "mockHL7 =
     \<lparr>ParseMessage =
        (\<lambda>b strict. if b = [] then Inl (ExternalError ''empty message'') else Inr (length b)),
      MessageType = (\<lambda>n. if n = 1 then ''ACK'' else if n = 2 then ''NACK'' else ''ORU'')\<rparr>"

section \<open>Properties\<close>

subsection \<open>Validation\<close>

text \<open>
  C3. \<^verbatim>\<open>Validate\<close> succeeds if and only if the project, location, dataset and store
  identifiers are all non-empty; the rate limit plays no part (whatever value the field is
  given, the result is the same); and when it fails, the error names an identifier that is
  empty, the first one in the order project, location, dataset, store.
\<close>

theorem Validate_iff_identifiers:
  "(Validate c = None \<longleftrightarrow>
      ProjectID c \<noteq> '''' \<and> LocationID c \<noteq> '''' \<and> DatasetID c \<noteq> '''' \<and> HL7StoreID c \<noteq> '''')
   \<and> Validate (c\<lparr>RateLimit := r\<rparr>) = Validate c
   \<and> (Validate c = Some (ErrorString ''missing project id'') \<longleftrightarrow> ProjectID c = '''')
   \<and> (Validate c = Some (ErrorString ''missing location id'') \<longleftrightarrow>
        ProjectID c \<noteq> '''' \<and> LocationID c = '''')
   \<and> (Validate c = Some (ErrorString ''missing dataset id'') \<longleftrightarrow>
        ProjectID c \<noteq> '''' \<and> LocationID c \<noteq> '''' \<and> DatasetID c = '''')
   \<and> (Validate c = Some (ErrorString ''missing hl7 store id'') \<longleftrightarrow>
        ProjectID c \<noteq> '''' \<and> LocationID c \<noteq> '''' \<and> DatasetID c \<noteq> '''' \<and> HL7StoreID c = '''')
   \<and> (Validate c = None
        \<or> Validate c = Some (ErrorString ''missing project id'')
        \<or> Validate c = Some (ErrorString ''missing location id'')
        \<or> Validate c = Some (ErrorString ''missing dataset id'')
        \<or> Validate c = Some (ErrorString ''missing hl7 store id''))"
  by (simp add: Validate_def)

subsection \<open>The store address\<close>

text \<open>
  C4. The store name of a configuration is the four identifiers after their fixed path
  labels, joined with slashes; for project p, location l, dataset d and store s it is
  projects/p/locations/l/datasets/d/hl7V2Stores/s.
\<close>

theorem genStoreName_path:
  "genStoreName c =
     ''projects/'' @ ProjectID c @ ''/locations/'' @ LocationID c
       @ ''/datasets/'' @ DatasetID c @ ''/hl7V2Stores/'' @ HL7StoreID c
   \<and> genStoreName \<lparr>Credential = cr, ProjectID = ''p'', LocationID = ''l'',
        DatasetID = ''d'', HL7StoreID = ''s'', RateLimit = r\<rparr>
      = ''projects/p/locations/l/datasets/d/hl7V2Stores/s''"
  by (simp add: genStoreName_def projectsPath_def locationsPath_def datasetsPath_def
      hl7storePath_def)

subsection \<open>Base64: decoding undoes encoding\<close>

lemma index_of_nth: "distinct xs \<Longrightarrow> n < length xs \<Longrightarrow> index_of xs (xs ! n) = Some n"
proof (induction xs arbitrary: n)
  case Nil
  then show ?case by simp
next
  case (Cons x xs)
  then show ?case by (cases n) auto
qed

lemma index_of_None: "c \<notin> set xs \<Longrightarrow> index_of xs c = None"
  by (induction xs) auto

lemma distinct_encodeStd: "distinct encodeStd"
  by (simp add: encodeStd_def)

lemma length_encodeStd: "length encodeStd = 64"
  by (simp add: encodeStd_def)

lemma StdPadding_notin: "StdPadding \<notin> set encodeStd"
  by (simp add: encodeStd_def StdPadding_def)

lemma newline_notin: "CHR 0x0A \<notin> set encodeStd" "CHR 0x0D \<notin> set encodeStd"
  by (simp_all add: encodeStd_def)

text \<open>The test vectors of RFC 4648, section 10, and some corrupt inputs.\<close>

lemma EncodeToString_rfc4648:
  "EncodeToString [] = ''''"
  "EncodeToString [0x66] = ''Zg==''"
  "EncodeToString [0x66, 0x6F] = ''Zm8=''"
  "EncodeToString [0x66, 0x6F, 0x6F] = ''Zm9v''"
  "EncodeToString [0x66, 0x6F, 0x6F, 0x62] = ''Zm9vYg==''"
  "EncodeToString [0x66, 0x6F, 0x6F, 0x62, 0x61] = ''Zm9vYmE=''"
  "EncodeToString [0x66, 0x6F, 0x6F, 0x62, 0x61, 0x72] = ''Zm9vYmFy''"
  by (simp_all add: sextet_def encodeStd_def StdPadding_def)

lemma DecodeString_corrupt:
  "DecodeString ''Zm9vYmE'' = Inl CorruptInputError"
  "DecodeString ''Zg=x'' = Inl CorruptInputError"
  "DecodeString ''Zm8=Zm8='' = Inl CorruptInputError"
  "DecodeString ''nack!'' = Inl CorruptInputError"
  by (simp_all add: DecodeString_def decodeMap_def encodeStd_def StdPadding_def)

lemma m6: "(0x3F :: uint) = mask 6"
  by (simp add: mask_eq_decr_exp)

lemma unat_sextet_less: "unat (w AND (0x3F :: uint)) < 64"
proof -
  have "w AND 0x3F \<le> (0x3F :: uint)"
    by (rule word_and_le1)
  then have "unat (w AND 0x3F) \<le> unat (0x3F :: uint)"
    by (simp only: word_le_nat_alt)
  then show ?thesis by simp
qed

lemma sextet_in_alphabet: "sextet val n \<in> set encodeStd"
  unfolding sextet_def using unat_sextet_less [of "drop_bit n val"]
  by (simp add: length_encodeStd)

lemma decodeMap_sextet: "decodeMap (sextet val n) = ucast (drop_bit n val AND 0x3F)"
proof -
  have "index_of encodeStd (sextet val n) = Some (unat (drop_bit n val AND 0x3F))"
    unfolding sextet_def
    using unat_sextet_less [of "drop_bit n val"]
    by (intro index_of_nth) (simp_all add: distinct_encodeStd length_encodeStd)
  then show ?thesis
    by (simp add: decodeMap_def)
qed

lemma decodeMap_sextet_valid: "decodeMap (sextet val n) \<noteq> 0xFF"
proof
  assume "decodeMap (sextet val n) = 0xFF"
  then have "(ucast (drop_bit n val AND 0x3F :: uint) :: byte) = 0xFF"
    by (simp add: decodeMap_sextet)
  then have "bit (ucast (drop_bit n val AND mask 6 :: uint) :: byte) 7 = bit (0xFF :: byte) 7"
    unfolding m6 by simp
  then show False
    by (simp add: bit_simps)
qed

lemma decodeMap_StdPadding: "decodeMap StdPadding = 0xFF"
  by (simp add: decodeMap_def index_of_None [OF StdPadding_notin])

lemma ucast_sextet:
  fixes v :: uint
  shows "(ucast (ucast (drop_bit k v AND 0x3F) :: byte) :: uint) = drop_bit k v AND 0x3F"
  unfolding m6
  by (rule bit_word_eqI) (auto simp: bit_simps dest: bit_imp_le_length)

text \<open>A value below \<open>2 ^ 24\<close> is the four sextets it is cut into.\<close>

lemma reassemble:
  fixes v :: uint
  assumes "drop_bit 24 v = 0"
  shows "push_bit 18 (drop_bit 18 v AND 0x3F) OR push_bit 12 (drop_bit 12 v AND 0x3F)
       OR push_bit 6 (drop_bit 6 v AND 0x3F) OR (drop_bit 0 v AND 0x3F) = v"
proof (rule bit_word_eqI)
  fix n
  assume "n < LENGTH(64)"
  have "bit (drop_bit 24 v) k = False" for k
    using assms by simp
  then have hi: "\<not> bit v (24 + k)" for k
    by (simp add: bit_simps)
  have hi': "\<not> bit v n" if "24 \<le> n"
    using hi [of "n - 24"] that by simp
  let ?lhs = "push_bit 18 (drop_bit 18 v AND mask 6) OR push_bit 12 (drop_bit 12 v AND mask 6)
       OR push_bit 6 (drop_bit 6 v AND mask 6) OR (drop_bit 0 v AND mask 6)"
  consider "n < 6" | "6 \<le> n" "n < 12" | "12 \<le> n" "n < 18" | "18 \<le> n" "n < 24" | "24 \<le> n"
    by linarith
  then have "bit ?lhs n = bit v n"
  proof cases
    case 1
    then show ?thesis by (auto simp: bit_simps)
  next
    case 2
    then show ?thesis by (auto simp: bit_simps)
  next
    case 3
    then show ?thesis by (auto simp: bit_simps)
  next
    case 4
    then show ?thesis by (auto simp: bit_simps)
  next
    case 5
    then show ?thesis using hi' by (auto simp: bit_simps)
  qed
  then show "bit (push_bit 18 (drop_bit 18 v AND 0x3F) OR push_bit 12 (drop_bit 12 v AND 0x3F)
       OR push_bit 6 (drop_bit 6 v AND 0x3F) OR (drop_bit 0 v AND 0x3F)) n = bit v n"
    unfolding m6 .
qed

lemma assemble_sextets:
  assumes "drop_bit 24 v = 0"
  shows "assemble (decodeMap (sextet v 18)) (decodeMap (sextet v 12))
           (decodeMap (sextet v 6)) (decodeMap (sextet v 0)) = v"
  using reassemble [OF assms]
  by (simp only: assemble_def decodeMap_sextet ucast_sextet)

lemma val3_hi:
  fixes b0 b1 b2 :: byte
  shows "drop_bit 24 (push_bit 16 (ucast b0) OR push_bit 8 (ucast b1) OR ucast b2 :: uint) = 0"
  by (rule bit_word_eqI) (auto simp: bit_simps dest: bit_imp_le_length)

lemma val3_b0:
  fixes b0 b1 b2 :: byte
  shows "ucast (drop_bit 16 (push_bit 16 (ucast b0) OR push_bit 8 (ucast b1) OR ucast b2 :: uint)) = b0"
  by (rule bit_word_eqI) (auto simp: bit_simps dest: bit_imp_le_length)

lemma val3_b1:
  fixes b0 b1 b2 :: byte
  shows "ucast (drop_bit 8 (push_bit 16 (ucast b0) OR push_bit 8 (ucast b1) OR ucast b2 :: uint)) = b1"
  by (rule bit_word_eqI) (auto simp: bit_simps dest: bit_imp_le_length)

lemma val3_b2:
  fixes b0 b1 b2 :: byte
  shows "ucast (push_bit 16 (ucast b0) OR push_bit 8 (ucast b1) OR ucast b2 :: uint) = b2"
  by (rule bit_word_eqI) (auto simp: bit_simps dest: bit_imp_le_length)

lemma val2_low:
  fixes b0 b1 :: byte
  shows "(push_bit 16 (ucast b0) OR push_bit 8 (ucast b1) :: uint) AND 0x3F = 0"
  unfolding m6
  by (rule bit_word_eqI) (auto simp: bit_simps dest: bit_imp_le_length)

lemma val1_low:
  fixes b0 :: byte
  shows "(push_bit 16 (ucast b0) :: uint) AND 0x3F = 0"
    and "drop_bit 6 (push_bit 16 (ucast b0) :: uint) AND 0x3F = 0"
  unfolding m6
  by (rule bit_word_eqI; auto simp: bit_simps dest: bit_imp_le_length)+

lemma decodeQuanta_full:
  assumes "drop_bit 24 v = 0" and "decodeQuanta rest = Inr dst"
  shows "decodeQuanta (sextet v 18 # sextet v 12 # sextet v 6 # sextet v 0 # rest) =
           Inr (ucast (drop_bit 16 v) # ucast (drop_bit 8 v) # ucast v # dst)"
  by (simp add: Let_def decodeMap_sextet_valid assemble_sextets assms)

lemma decodeQuanta_pad1:
  assumes hi: "drop_bit 24 v = 0" and low: "v AND 0x3F = 0"
  shows "decodeQuanta [sextet v 18, sextet v 12, sextet v 6, StdPadding] =
           Inr [ucast (drop_bit 16 v), ucast (drop_bit 8 v)]"
proof -
  have "decodeMap (sextet v 0) = 0"
    using low by (simp add: decodeMap_sextet)
  with assemble_sextets [OF hi]
  have "assemble (decodeMap (sextet v 18)) (decodeMap (sextet v 12)) (decodeMap (sextet v 6)) 0 = v"
    by simp
  then show ?thesis
    by (simp add: Let_def decodeMap_sextet_valid decodeMap_StdPadding)
qed

lemma decodeQuanta_pad2:
  assumes hi: "drop_bit 24 v = 0" and low: "v AND 0x3F = 0" "drop_bit 6 v AND 0x3F = 0"
  shows "decodeQuanta [sextet v 18, sextet v 12, StdPadding, StdPadding] =
           Inr [ucast (drop_bit 16 v)]"
proof -
  have "decodeMap (sextet v 0) = 0" "decodeMap (sextet v 6) = 0"
    using low by (simp_all add: decodeMap_sextet)
  with assemble_sextets [OF hi]
  have "assemble (decodeMap (sextet v 18)) (decodeMap (sextet v 12)) 0 0 = v"
    by simp
  then show ?thesis
    by (simp add: Let_def decodeMap_sextet_valid decodeMap_StdPadding)
qed

lemma decodeQuanta_EncodeToString: "decodeQuanta (EncodeToString src) = Inr src"
proof (induction src rule: EncodeToString.induct)
  case (1 b0 b1 b2 src)
  let ?v = "push_bit 16 (ucast b0) OR push_bit 8 (ucast b1) OR ucast b2 :: uint"
  have "decodeQuanta (EncodeToString (b0 # b1 # b2 # src)) =
          Inr (ucast (drop_bit 16 ?v) # ucast (drop_bit 8 ?v) # ucast ?v # src)"
    unfolding EncodeToString.simps Let_def
    by (rule decodeQuanta_full [OF val3_hi "1" [OF refl]])
  then show ?case
    by (simp only: val3_b0 val3_b1 val3_b2)
next
  case (2 b0 b1)
  let ?v = "push_bit 16 (ucast b0) OR push_bit 8 (ucast b1) :: uint"
  have hi: "drop_bit 24 ?v = 0"
    using val3_hi [of b0 b1 0] by simp
  have "decodeQuanta (EncodeToString [b0, b1]) =
          Inr [ucast (drop_bit 16 ?v), ucast (drop_bit 8 ?v)]"
    unfolding EncodeToString.simps Let_def
    by (rule decodeQuanta_pad1 [OF hi val2_low])
  moreover have "ucast (drop_bit 16 ?v) = b0" "ucast (drop_bit 8 ?v) = b1"
    using val3_b0 [of b0 b1 0] val3_b1 [of b0 b1 0] by simp_all
  ultimately show ?case
    by (simp only:)
next
  case (3 b0)
  let ?v = "push_bit 16 (ucast b0) :: uint"
  have hi: "drop_bit 24 ?v = 0"
    using val3_hi [of b0 0 0] by simp
  have "decodeQuanta (EncodeToString [b0]) = Inr [ucast (drop_bit 16 ?v)]"
    unfolding EncodeToString.simps Let_def
    by (rule decodeQuanta_pad2 [OF hi val1_low])
  moreover have "ucast (drop_bit 16 ?v) = b0"
    using val3_b0 [of b0 0 0] by simp
  ultimately show ?case
    by (simp only:)
next
  case 4
  show ?case by simp
qed

lemma EncodeToString_chars:
  "set (EncodeToString src) \<subseteq> insert StdPadding (set encodeStd)"
  by (induction src rule: EncodeToString.induct) (auto simp: Let_def sextet_in_alphabet)

lemma EncodeToString_no_newline:
  "filter (\<lambda>c. c \<noteq> CHR 0x0A \<and> c \<noteq> CHR 0x0D) (EncodeToString src) = EncodeToString src"
proof -
  have "CHR 0x0A \<notin> set (EncodeToString src)" "CHR 0x0D \<notin> set (EncodeToString src)"
    using EncodeToString_chars [of src] newline_notin by (auto simp: StdPadding_def)
  then show ?thesis
    by (intro filter_True) auto
qed

lemma DecodeString_EncodeToString: "DecodeString (EncodeToString src) = Inr src"
  by (simp add: DecodeString_def EncodeToString_no_newline decodeQuanta_EncodeToString)

subsection \<open>Send\<close>

text \<open>
  C1. For every input \<open>data\<close> and every acknowledgement \<open>ack\<close>: when the transport answers
  the ingest call of \<^verbatim>\<open>Send(data)\<close> with a response whose acknowledgement field is the
  base64 encoding of \<open>ack\<close> and whose message has the resource name \<open>Name m\<close>, then
  \<^verbatim>\<open>Send\<close> returns the bytes \<open>ack\<close>, the name \<open>Name m\<close> and no error; and the one
  request it has sent is the ingest call on the store name, with a message whose data field
  is the standard base64 encoding of \<open>data\<close> and whose label map is empty.
\<close>

theorem Send_roundtrip:
  assumes "IngestDo (store c) (genStoreName (config c))
             \<lparr>reqMessage = Some \<lparr>Name = '''', Data = EncodeToString data, Labels = Map.empty\<rparr>\<rparr>
             (Add Map.empty apiFormatHeader ''2'') = Inr resp"
    and "Hl7Ack resp = EncodeToString ack"
    and "respMessage resp = Some m"
  shows "Send c data =
           ([E_Take (limiter c),
             E_Do \<lparr>kind = MessagesIngest (genStoreName (config c))
                     \<lparr>reqMessage = Some \<lparr>Name = '''', Data = EncodeToString data,
                                          Labels = Map.empty\<rparr>\<rparr>,
                   callHeader = Add Map.empty apiFormatHeader ''2''\<rparr>],
            Inr (ack, Name m, None))"
  using assms by (simp add: Send_def DecodeString_EncodeToString)

text \<open>
  An instance: the store answers with the acknowledgement ``foo'', encoded as Zm9v, and
  the name of the stored message.
\<close>

theorem Send_roundtrip_witness:
  "snd (Send (mockClient (mockResponse ''Zm9v'')) [0x4D, 0x53, 0x48]) =
     Inr ([0x66, 0x6F, 0x6F],
          ''projects/devx-rpml/locations/us-central1/datasets/inap-dev/hl7V2Stores/somehl7/messages/1'',
          None)"
proof -
  let ?m = "\<lparr>Name = ''projects/devx-rpml/locations/us-central1/datasets/inap-dev/hl7V2Stores/somehl7/messages/1'',
             Data = '''', Labels = Map.empty\<rparr>"
  let ?c = "mockClient (mockResponse ''Zm9v'')"
  have enc: "EncodeToString [0x66, 0x6F, 0x6F] = ''Zm9v''"
    by (simp add: sextet_def encodeStd_def)
  have "Send ?c [0x4D, 0x53, 0x48] =
           ([E_Take (limiter ?c),
             E_Do \<lparr>kind = MessagesIngest (genStoreName (config ?c))
                     \<lparr>reqMessage = Some \<lparr>Name = '''', Data = EncodeToString [0x4D, 0x53, 0x48],
                                          Labels = Map.empty\<rparr>\<rparr>,
                   callHeader = Add Map.empty apiFormatHeader ''2''\<rparr>],
            Inr ([0x66, 0x6F, 0x6F], Name ?m, None))"
  proof (rule Send_roundtrip [where resp = "mockResponse ''Zm9v''"])
    show "Hl7Ack (mockResponse ''Zm9v'') = EncodeToString [0x66, 0x6F, 0x6F]"
      unfolding enc by (simp add: mockResponse_def)
  qed (simp_all add: mockClient_def mockStore_def mockResponse_def)
  then show ?thesis by simp
qed

text \<open>
  C10. When the ingest call succeeds and the response carries a message with its resource
  name, but the acknowledgement field is not valid base64, \<^verbatim>\<open>Send\<close> returns the decoding
  error with no bytes and with the empty string as the resource name: the name of the
  stored message is not in the result.
\<close>

theorem Send_undecodable_ack:
  assumes "IngestDo (store c) (genStoreName (config c))
             \<lparr>reqMessage = Some \<lparr>Name = '''', Data = EncodeToString data, Labels = Map.empty\<rparr>\<rparr>
             (Add Map.empty apiFormatHeader ''2'') = Inr resp"
    and "respMessage resp = Some m"
    and "DecodeString (Hl7Ack resp) = Inl err"
  shows "snd (Send c data) = Inr ([], '''', Some err)"
  using assms by (simp add: Send_def)

theorem Send_undecodable_ack_witness:
  "snd (Send (mockClient (mockResponse ''nack!'')) [0x4D, 0x53, 0x48]) =
     Inr ([], '''', Some CorruptInputError)"
proof (rule Send_undecodable_ack [where resp = "mockResponse ''nack!''"])
  show "DecodeString (Hl7Ack (mockResponse ''nack!'')) = Inl CorruptInputError"
    by (simp add: mockResponse_def DecodeString_corrupt)
qed (simp_all add: mockClient_def mockStore_def mockResponse_def)

subsection \<open>The acknowledgement check\<close>

text \<open>
  C2. \<^verbatim>\<open>checkAck\<close> returns no error exactly when the bytes parse as a message whose type
  is ACK; for a message of type NACK it returns the negative-acknowledgement error, for a
  message of any other type the unrecognised-acknowledgement error, which is a different
  error; and when the bytes do not parse, it returns the parser's error.
\<close>

theorem checkAck_classifies:
  "(checkAck hl7 b = None \<longleftrightarrow>
      (\<exists>ack. ParseMessage hl7 b True = Inr ack \<and> MessageType hl7 ack = ''ACK''))
   \<and> (\<forall>ack. ParseMessage hl7 b True = Inr ack \<and> MessageType hl7 ack = ''NACK'' \<longrightarrow>
         checkAck hl7 b = Some (ErrorString ''receiving system returned nack''))
   \<and> (\<forall>ack. ParseMessage hl7 b True = Inr ack \<and> MessageType hl7 ack \<noteq> ''ACK''
           \<and> MessageType hl7 ack \<noteq> ''NACK'' \<longrightarrow>
         checkAck hl7 b = Some (ErrorString ''invalid ack response''))
   \<and> (\<forall>err. ParseMessage hl7 b True = Inl err \<longrightarrow> checkAck hl7 b = Some err)
   \<and> ErrorString ''receiving system returned nack'' \<noteq> ErrorString ''invalid ack response''"
  by (auto simp: checkAck_def split: sum.splits)

theorem checkAck_classifies_witness:
  "checkAck mockHL7 [0x41] = None
   \<and> checkAck mockHL7 [0x4E, 0x41] = Some (ErrorString ''receiving system returned nack'')
   \<and> checkAck mockHL7 [0x4F, 0x52, 0x55] = Some (ErrorString ''invalid ack response'')
   \<and> checkAck mockHL7 [] = Some (ExternalError ''empty message'')"
  using checkAck_classifies [of mockHL7 "[0x41]"]
    checkAck_classifies [of mockHL7 "[0x4E, 0x41]"]
    checkAck_classifies [of mockHL7 "[0x4F, 0x52, 0x55]"]
    checkAck_classifies [of mockHL7 "[]"]
  by (simp add: mockHL7_def)

subsection \<open>Requests and permits\<close>

lemma canonical_apiFormatHeader:
  "CanonicalMIMEHeaderKey apiFormatHeader = ''X-Goog-Api-Format-Version''"
  by code_simp

lemma canonical_version_key:
  "CanonicalMIMEHeaderKey ''X-GOOG-API-FORMAT-VERSION'' = ''X-Goog-Api-Format-Version''"
  by code_simp

lemma canonical_examples:
  "CanonicalMIMEHeaderKey ''content-type'' = ''Content-Type''"
  "CanonicalMIMEHeaderKey ''x-goog api'' = ''x-goog api''"
  by code_simp+

lemma version_header:
  "Add Map.empty apiFormatHeader ''2'' = [''X-Goog-Api-Format-Version'' \<mapsto> [''2'']]"
  by (simp add: Add_def canonical_apiFormatHeader)

lemma version_header_Get:
  "HeaderGet [''X-Goog-Api-Format-Version'' \<mapsto> [''2'']] ''X-GOOG-API-FORMAT-VERSION'' = ''2''"
  by (simp add: HeaderGet_def canonical_version_key)

lemma Sprintf_messages:
  "Sprintf ''%s/messages/%s'' [parent, ident] = parent @ ''/messages/'' @ ident"
  by simp

text \<open>
  C5. Each of \<^verbatim>\<open>Send\<close>, \<^verbatim>\<open>List\<close>, \<^verbatim>\<open>Get\<close> and \<^verbatim>\<open>GetByID\<close> issues one request,
  and that request carries the header X-GOOG-API-FORMAT-VERSION with the value 2: there
  is one header \<open>h\<close>, holding the value 2 and no other under the canonical spelling of
  that name, so that reading X-GOOG-API-FORMAT-VERSION from it gives 2, and for each of the
  four operations \<open>h\<close> is the header of the one request in its events and the header
  handed to the transport, whose answer decides the result of the operation.
\<close>

theorem requests_carry_version_header:
  "\<exists>h. h = [''X-Goog-Api-Format-Version'' \<mapsto> [''2'']]
     \<and> HeaderGet h ''X-GOOG-API-FORMAT-VERSION'' = ''2''
     \<and> requests (fst (Send c data)) =
         [\<lparr>kind = MessagesIngest (genStoreName (config c))
                  \<lparr>reqMessage = Some \<lparr>Name = '''', Data = EncodeToString data,
                                       Labels = Map.empty\<rparr>\<rparr>,
           callHeader = h\<rparr>]
     \<and> snd (Send c data) =
         (case IngestDo (store c) (genStoreName (config c))
                 \<lparr>reqMessage = Some \<lparr>Name = '''', Data = EncodeToString data,
                                      Labels = Map.empty\<rparr>\<rparr> h of
            Inl err \<Rightarrow> Inr ([], '''', Some err)
          | Inr resp \<Rightarrow>
              (case respMessage resp of
                 None \<Rightarrow> Inl NilPointerDereference
               | Some m \<Rightarrow>
                   (case DecodeString (Hl7Ack resp) of
                      Inl err \<Rightarrow> Inr ([], '''', Some err)
                    | Inr res \<Rightarrow> Inr (res, Name m, None))))
     \<and> requests (fst (List c)) =
         [\<lparr>kind = MessagesList (genStoreName (config c)), callHeader = h\<rparr>]
     \<and> snd (List c) = ListDo (store c) (genStoreName (config c)) h
     \<and> requests (fst (Get c path)) = [\<lparr>kind = MessagesGet path, callHeader = h\<rparr>]
     \<and> snd (Get c path) = GetDo (store c) path h
     \<and> requests (fst (GetByID c ident)) =
         [\<lparr>kind = MessagesGet (genStoreName (config c) @ ''/messages/'' @ ident),
           callHeader = h\<rparr>]
     \<and> snd (GetByID c ident) =
         GetDo (store c) (genStoreName (config c) @ ''/messages/'' @ ident) h"
proof -
  let ?h = "[''X-Goog-Api-Format-Version'' \<mapsto> [''2'']] :: Header"
  let ?req = "\<lparr>reqMessage = Some \<lparr>Name = '''', Data = EncodeToString data,
                                    Labels = Map.empty\<rparr>\<rparr>"
  have send_events: "requests (fst (Send c data)) =
      [\<lparr>kind = MessagesIngest (genStoreName (config c)) ?req, callHeader = ?h\<rparr>]"
    by (simp add: Send_def Let_def version_header split: sum.splits option.splits)
  have send_result: "snd (Send c data) =
      (case IngestDo (store c) (genStoreName (config c)) ?req ?h of
         Inl err \<Rightarrow> Inr ([], '''', Some err)
       | Inr resp \<Rightarrow>
           (case respMessage resp of
              None \<Rightarrow> Inl NilPointerDereference
            | Some m \<Rightarrow>
                (case DecodeString (Hl7Ack resp) of
                   Inl err \<Rightarrow> Inr ([], '''', Some err)
                 | Inr res \<Rightarrow> Inr (res, Name m, None))))"
    by (simp add: Send_def Let_def version_header split: sum.splits option.splits)
  have list: "requests (fst (List c)) =
      [\<lparr>kind = MessagesList (genStoreName (config c)), callHeader = ?h\<rparr>]"
    "snd (List c) = ListDo (store c) (genStoreName (config c)) ?h"
    by (simp_all add: List_def Let_def version_header)
  have get: "requests (fst (Get c p)) = [\<lparr>kind = MessagesGet p, callHeader = ?h\<rparr>]"
    "snd (Get c p) = GetDo (store c) p ?h" for p
    by (simp_all add: Get_def Let_def version_header)
  have by_id: "GetByID c ident = Get c (genStoreName (config c) @ ''/messages/'' @ ident)"
    by (simp add: GetByID_def)
  show ?thesis
    unfolding by_id
    using version_header_Get send_events send_result list get [of path]
      get [of "genStoreName (config c) @ ''/messages/'' @ ident"]
    by (intro exI [of _ ?h] conjI refl)
qed

text \<open>
  C6. Each of \<^verbatim>\<open>Send\<close>, \<^verbatim>\<open>List\<close>, \<^verbatim>\<open>Get\<close> and \<^verbatim>\<open>GetByID\<close> takes exactly one
  permit from the client's limiter, and takes it before it issues its request: the events
  of a call are the permit and then the request. \<^verbatim>\<open>GetByID\<close>, which calls \<^verbatim>\<open>Get\<close>,
  takes one permit, not two.
\<close>

theorem one_permit_before_request:
  "permits (fst (Send c data)) = 1
   \<and> (\<exists>q. fst (Send c data) = [E_Take (limiter c), E_Do q])
   \<and> permits (fst (List c)) = 1
   \<and> (\<exists>q. fst (List c) = [E_Take (limiter c), E_Do q])
   \<and> permits (fst (Get c path)) = 1
   \<and> (\<exists>q. fst (Get c path) = [E_Take (limiter c), E_Do q])
   \<and> permits (fst (GetByID c ident)) = 1
   \<and> (\<exists>q. fst (GetByID c ident) = [E_Take (limiter c), E_Do q])"
  by (simp add: Send_def List_def Get_def GetByID_def Let_def
      split: sum.splits option.splits)

text \<open>
  C9. For every id, \<^verbatim>\<open>GetByID(id)\<close> is \<^verbatim>\<open>Get\<close> on the path made of the store name,
  then /messages/, then the id: the same events and the same result.
\<close>

theorem GetByID_delegates:
  "GetByID c ident = Get c (genStoreName (config c) @ ''/messages/'' @ ident)"
  by (simp add: GetByID_def)

subsection \<open>Construction\<close>

text \<open>
  C7. When \<^verbatim>\<open>NewClient\<close> returns a client for a configuration with rate limit R, the
  client's limiter is the fixed-rate limiter of rate R if R is greater than 0 and the
  unlimited limiter if R is at most 0, so it is a fixed-rate limiter exactly when R is
  greater than 0. Whether a client is returned does not depend on R: the same
  configuration with any other rate limit gives the same client but for the limiter chosen
  for that rate. The choice is part of the construction: the client keeps the
  configuration it was built from, and the operations return no new client.
\<close>

theorem NewClient_limiter:
  assumes "NewClient env cfg = (tr, Inr c)"
  shows "(0 < RateLimit cfg \<longrightarrow> limiter c = New (RateLimit cfg))
         \<and> (RateLimit cfg \<le> 0 \<longrightarrow> limiter c = NewUnlimited)
         \<and> (limiter c \<noteq> NewUnlimited \<longleftrightarrow> 0 < RateLimit cfg)
         \<and> config c = cfg
         \<and> NewClient env (cfg\<lparr>RateLimit := r\<rparr>) =
             (tr, Inr (c\<lparr>config := cfg\<lparr>RateLimit := r\<rparr>,
                         limiter := if 0 < r then New r else NewUnlimited\<rparr>))"
proof -
  have valid: "Validate cfg = None"
    using assms by (auto simp: NewClient_def split: option.splits)
  have "Validate (cfg\<lparr>RateLimit := r\<rparr>) = Validate cfg"
    by (simp add: Validate_def)
  with valid have valid': "Validate (cfg\<lparr>RateLimit := r\<rparr>) = None"
    by simp
  obtain st where st: "initHL7Store env (Credential cfg) = (tr, Inr st)"
    using assms valid
    by (auto simp: NewClient_def Let_def split: prod.splits sum.splits)
  have c: "c = \<lparr>config = cfg, store = st,
                 limiter = if 0 < RateLimit cfg then New (RateLimit cfg) else NewUnlimited\<rparr>"
    using assms by (simp add: NewClient_def valid st Let_def)
  have "NewClient env (cfg\<lparr>RateLimit := r\<rparr>) =
          (tr, Inr \<lparr>config = cfg\<lparr>RateLimit := r\<rparr>, store = st,
                     limiter = if 0 < r then New r else NewUnlimited\<rparr>)"
    by (simp add: NewClient_def valid' st Let_def)
  then show ?thesis
    by (simp add: c)
qed

theorem NewClient_limiter_witness:
  "(\<exists>tr c. NewClient mockEnv (mockConfig ''./.secrets/creds.json'' 5) = (tr, Inr c)
        \<and> limiter c = New 5)
   \<and> (\<exists>tr c. NewClient mockEnv (mockConfig ''./.secrets/creds.json'' 0) = (tr, Inr c)
        \<and> limiter c = NewUnlimited)
   \<and> (\<exists>tr c. NewClient mockEnv (mockConfig [] (- 3)) = (tr, Inr c)
        \<and> limiter c = NewUnlimited)"
proof -
  have valid: "Validate (mockConfig cred r) = None" for cred r
    by (simp add: Validate_def mockConfig_def)
  have keyfile: "\<exists>tr st. initHL7Store mockEnv ''./.secrets/creds.json'' = (tr, Inr st)"
    by (simp add: initHL7Store_def tokenSource_def mockEnv_def)
  have ambient: "\<exists>tr st. initHL7Store mockEnv [] = (tr, Inr st)"
    by (simp add: initHL7Store_def tokenSource_def mockEnv_def)
  have cred: "Credential (mockConfig cred r) = cred" for cred r
    by (simp add: mockConfig_def)
  have built: "\<exists>tr c. NewClient mockEnv (mockConfig cred r) = (tr, Inr c)"
    if "\<exists>tr st. initHL7Store mockEnv cred = (tr, Inr st)" for cred r
    using that by (auto simp: NewClient_def valid cred Let_def)
  have sel: "RateLimit (mockConfig cred r) = r" for cred r
    by (simp add: mockConfig_def)
  from built [OF keyfile] obtain tr1 c1
    where h1: "NewClient mockEnv (mockConfig ''./.secrets/creds.json'' 5) = (tr1, Inr c1)"
    by blast
  from built [OF keyfile] obtain tr2 c2
    where h2: "NewClient mockEnv (mockConfig ''./.secrets/creds.json'' 0) = (tr2, Inr c2)"
    by blast
  from built [OF ambient] obtain tr3 c3
    where h3: "NewClient mockEnv (mockConfig [] (- 3)) = (tr3, Inr c3)"
    by blast
  have "limiter c1 = New 5"
    using NewClient_limiter [OF h1] by (simp add: sel)
  moreover have "limiter c2 = NewUnlimited"
    using NewClient_limiter [OF h2] by (simp add: sel)
  moreover have "limiter c3 = NewUnlimited"
    using NewClient_limiter [OF h3] by (simp add: sel)
  ultimately show ?thesis
    using h1 h2 h3 by blast
qed

text \<open>
  C8. With an empty credential locator, \<^verbatim>\<open>tokenSource\<close> asks the default credential
  chain once, for the given scopes, and returns what it answers, reading no file. With a
  non-empty locator it reads that file: if the file cannot be read it fails with the read
  error; if the content cannot be parsed as credentials for the given scopes it fails with
  the parse error; otherwise it returns the token source of the parsed credentials.
\<close>

theorem tokenSource_cases:
  "tokenSource env '''' scopes = ([E_DefaultTokenSource scopes], DefaultTokenSource env scopes)
   \<and> (\<forall>err. cred \<noteq> '''' \<and> ReadFile env cred = Inl err \<longrightarrow>
          tokenSource env cred scopes = ([E_ReadFile cred], Inl err))
   \<and> (\<forall>j err. cred \<noteq> '''' \<and> ReadFile env cred = Inr j
            \<and> CredentialsFromJSON env j scopes = Inl err \<longrightarrow>
          tokenSource env cred scopes =
            ([E_ReadFile cred, E_CredentialsFromJSON j scopes], Inl err))
   \<and> (\<forall>j creds. cred \<noteq> '''' \<and> ReadFile env cred = Inr j
            \<and> CredentialsFromJSON env j scopes = Inr creds \<longrightarrow>
          tokenSource env cred scopes =
            ([E_ReadFile cred, E_CredentialsFromJSON j scopes], Inr (TokenSource creds)))"
  by (simp add: tokenSource_def)

theorem tokenSource_cases_witness:
  "tokenSource mockEnv '''' [scope] =
     ([E_DefaultTokenSource [scope]], Inr (TokenSourceHandle 0))
   \<and> tokenSource mockEnv ''./.secrets/none.json'' [scope] =
     ([E_ReadFile ''./.secrets/none.json''], Inl (ExternalError ''no such file or directory''))
   \<and> tokenSource mockEnv ''./.secrets/empty.json'' [scope] =
     ([E_ReadFile ''./.secrets/empty.json'', E_CredentialsFromJSON [] [scope]],
      Inl (ExternalError ''unexpected end of JSON input''))
   \<and> tokenSource mockEnv ''./.secrets/creds.json'' [scope] =
     ([E_ReadFile ''./.secrets/creds.json'', E_CredentialsFromJSON [0x7B, 0x7D] [scope]],
      Inr (TokenSourceHandle 1))"
  using tokenSource_cases [of mockEnv "[scope]" "''''"]
    tokenSource_cases [of mockEnv "[scope]" "''./.secrets/none.json''"]
    tokenSource_cases [of mockEnv "[scope]" "''./.secrets/empty.json''"]
    tokenSource_cases [of mockEnv "[scope]" "''./.secrets/creds.json''"]
  by (simp add: mockEnv_def)


end
